theory Spec2Isabelle
  imports Main "HOL-Library.Sublist"
begin

section \<open>Constants (constants/steam.ts)\<close>

definition PROVIDER_ID :: string where
  "PROVIDER_ID = ''steam''"

definition PROVIDER_NAME :: string where
  "PROVIDER_NAME = ''Steam''"

definition EMAIL_DOMAIN :: string where
  "EMAIL_DOMAIN = ''steamcommunity.com''"

definition LOGO_URL :: string where
  "LOGO_URL = ''https://raw.githubusercontent.com/Nekonyx/next-auth-steam/bc574bb62be70993c29f6f54c350bdf64205962a/logo/steam-icon-light.svg''"

definition AUTHORIZATION_URL :: string where
  "AUTHORIZATION_URL = ''https://steamcommunity.com/openid/login''"

section \<open>The platform the provider runs on\<close>

text \<open>
  Strings are lists of HOL characters, so a character stands for a code unit up to
  U+00FF. A thrown JavaScript value is an \<open>exn\<close>; a function that may throw returns
  \<open>exn + 'a\<close> with \<open>Inl\<close> for the thrown value.
\<close>

datatype exn = Error string | TypeError string | SyntaxError string

fun message :: "exn \<Rightarrow> string" where
  "message (Error m) = m"
| "message (TypeError m) = m"
| "message (SyntaxError m) = m"

text \<open>The three properties of a parsed \<open>URL\<close> object that SteamNextAuth.ts reads.\<close>

record URL =
  href :: string
  origin :: string
  search :: string

text \<open>
  A \<open>URLSearchParams\<close> object is its ordered list of name-value tuples; a name may occur
  more than once. \<open>get\<close> returns the value of the first tuple with the name (or null,
  here \<open>None\<close>). \<open>set\<close> overwrites the value of the first tuple with the name and removes
  the other tuples with it, or appends a new tuple when there is none.
\<close>

type_synonym URLSearchParams = "(string \<times> string) list"

fun URLSearchParams_get :: "URLSearchParams \<Rightarrow> string \<Rightarrow> string option" where
  "URLSearchParams_get [] name = None"
| "URLSearchParams_get ((k, v) # rest) name =
     (if k = name then Some v else URLSearchParams_get rest name)"

fun URLSearchParams_set :: "URLSearchParams \<Rightarrow> string \<Rightarrow> string \<Rightarrow> URLSearchParams" where
  "URLSearchParams_set [] name val = [(name, val)]"
| "URLSearchParams_set ((k, v) # rest) name val =
     (if k = name then (k, val) # filter (\<lambda>kv. fst kv \<noteq> name) rest
      else (k, v) # URLSearchParams_set rest name val)"

text \<open>
  An outgoing HTTP request, before serialisation: the query and the form body are kept as
  tuple lists (\<open>verifyParams.toString()\<close> and the URL's \<open>searchParams\<close> serialise them).
\<close>

record HttpRequest =
  http_method :: string
  target :: string
  query :: URLSearchParams
  headers :: "(string \<times> string) list"
  form_body :: "URLSearchParams option"

record Response =
  status :: nat
  statusText :: string
  body_text :: string

definition ok :: "Response \<Rightarrow> bool" where
  \<comment> \<open>\<open>response.ok\<close> of the Fetch API: the status is in the range 200 to 299.\<close>
  "ok r = (200 \<le> status r \<and> status r \<le> 299)"

text \<open>
  A parsed JSON value. A number is carried by its canonical \<open>Number\<close>-to-string
  rendering, which determines all this code observes of it (its truthiness and its
  interpolation into a template literal). An object is the list of its own properties.
  A JavaScript value that may be \<open>undefined\<close> is a \<open>json option\<close>.
\<close>

datatype json =
    JNull
  | JBool bool
  | JNum string
  | JStr string
  | JArr "json list"
  | JObj "(string \<times> json) list"

text \<open>
  What the provider takes from its runtime: the WHATWG URL parser (\<open>new URL(input, base)\<close>,
  which throws on an unparsable input), the form-urlencoded parser behind
  \<open>new URLSearchParams(search)\<close>, the transport \<open>fetch\<close> (which throws when the call
  itself fails), \<open>response.json()\<close> and \<open>crypto.randomUUID()\<close>.
\<close>

record platform =
  newURL :: "string \<Rightarrow> string option \<Rightarrow> exn + URL"
  newURLSearchParams :: "string \<Rightarrow> URLSearchParams"
  fetch :: "HttpRequest \<Rightarrow> exn + Response"
  json_parse :: "string \<Rightarrow> exn + json"
  randomUUID :: string

text \<open>The network activity of a run: the requests handed to \<open>fetch\<close>, in order.\<close>

type_synonym net = "HttpRequest list"

record Request =
  url :: "string option"

section \<open>The two regular expressions of verifyAssertion\<close>

definition is_digit :: "char \<Rightarrow> bool" where
  \<comment> \<open>\<open>\d\<close> without the unicode flag: the ten ASCII digits.\<close>
  "is_digit c = (48 \<le> (of_char c :: nat) \<and> (of_char c :: nat) \<le> 57)"

definition is_space :: "char \<Rightarrow> bool" where
  \<comment> \<open>\<open>\s\<close>, restricted to code units up to U+00FF: tab, line feed, vertical tab,
      form feed, carriage return, space and no-break space.\<close>
  "is_space c = ((of_char c :: nat) \<in> {9, 10, 11, 12, 13, 32, 160})"

definition toUpperCase :: "char \<Rightarrow> char" where
  \<comment> \<open>Canonicalisation under the \<open>i\<close> flag, as far as it can relate a character to an
      ASCII pattern character: a lower-case ASCII letter goes to its upper-case letter,
      and no character beyond ASCII is ever mapped into ASCII.\<close>
  "toUpperCase c =
     (if 97 \<le> (of_char c :: nat) \<and> (of_char c :: nat) \<le> 122
      then char_of ((of_char c :: nat) - 32) else c)"

fun match_literal :: "string \<Rightarrow> string \<Rightarrow> string option" where
  \<comment> \<open>Match the literal at the start of the input; the result is the rest of the input.\<close>
  "match_literal [] s = Some s"
| "match_literal (p # ps) [] = None"
| "match_literal (p # ps) (c # cs) = (if c = p then match_literal ps cs else None)"

fun match_literal_i :: "string \<Rightarrow> string \<Rightarrow> string option" where
  \<comment> \<open>The same, ignoring case.\<close>
  "match_literal_i [] s = Some s"
| "match_literal_i (p # ps) [] = None"
| "match_literal_i (p # ps) (c # cs) =
     (if toUpperCase c = toUpperCase p then match_literal_i ps cs else None)"

definition IDENTIFIER_PATTERN :: "string \<Rightarrow> string option" where
  \<comment> \<open>\<open>claimed.match(/^https?:\/\/steamcommunity\.com\/openid\/id\/(\d+)$/)\<close>: the
      first capture group, or \<open>None\<close> when there is no match. After \<open>http\<close> an \<open>s\<close>
      is consumed when present; skipping it instead cannot match, as \<open>:\<close> must follow.\<close>
  "IDENTIFIER_PATTERN s =
     (case match_literal ''http'' s of
        None \<Rightarrow> None
      | Some r \<Rightarrow>
          (case match_literal ''://steamcommunity.com/openid/id/''
                  (case r of c # t \<Rightarrow> if c = CHR ''s'' then t else r | [] \<Rightarrow> r) of
             None \<Rightarrow> None
           | Some ds \<Rightarrow> if ds \<noteq> [] \<and> list_all is_digit ds then Some ds else None))"

definition is_valid_here :: "string \<Rightarrow> bool" where
  \<comment> \<open>\<open>is_valid\s*:\s*true\<close> with the \<open>i\<close> flag, matched at the start of the input.
      Each \<open>\s*\<close> takes all the white space there is: the character that must follow
      is not white space, so giving some back cannot help.\<close>
  "is_valid_here s =
     (case match_literal_i ''is_valid'' s of
        None \<Rightarrow> False
      | Some r \<Rightarrow>
          (case dropWhile is_space r of
             [] \<Rightarrow> False
           | c # r' \<Rightarrow>
               c = CHR '':'' \<and>
               (case match_literal_i ''true'' (dropWhile is_space r') of
                  None \<Rightarrow> False
                | Some _ \<Rightarrow> True)))"

fun is_valid_test :: "string \<Rightarrow> bool" where
  \<comment> \<open>\<open>/is_valid\s*:\s*true/i.test(text)\<close>: a match starting at any position.\<close>
  "is_valid_test [] = is_valid_here []"
| "is_valid_test (c # cs) = (is_valid_here (c # cs) \<or> is_valid_test cs)"

section \<open>verifyAssertion\<close>

definition OPENID_CHECK_ns :: string where
  "OPENID_CHECK_ns = ''http://specs.openid.net/auth/2.0''"

definition OPENID_CHECK_claimed_id :: string where
  "OPENID_CHECK_claimed_id = ''https://steamcommunity.com/openid/id/''"

definition OPENID_CHECK_identity :: string where
  "OPENID_CHECK_identity = ''https://steamcommunity.com/openid/id/''"

definition or_empty :: "string option \<Rightarrow> string" where
  \<comment> \<open>\<open>value || ''\<close>: null and the empty string both give the empty string.\<close>
  "or_empty v = (case v of None \<Rightarrow> [] | Some s \<Rightarrow> s)"

definition startsWith :: "string \<Rightarrow> string \<Rightarrow> bool" where
  "startsWith s p = prefix p s"

fun copy_params :: "URLSearchParams \<Rightarrow> URLSearchParams \<Rightarrow> URLSearchParams" where
  \<comment> \<open>The loop over \<open>params.entries()\<close>, with \<open>verifyParams\<close> as accumulator.\<close>
  "copy_params [] verifyParams = verifyParams"
| "copy_params ((k, v) # rest) verifyParams =
     (if k = ''openid.mode'' then copy_params rest verifyParams
      else copy_params rest (URLSearchParams_set verifyParams k v))"

definition verifyParams :: "URLSearchParams \<Rightarrow> URLSearchParams" where
  "verifyParams params =
     URLSearchParams_set (copy_params params []) ''openid.mode'' ''check_authentication''"

definition verifyRequest :: "URLSearchParams \<Rightarrow> HttpRequest" where
  "verifyRequest params =
     \<lparr>http_method = ''POST'', target = AUTHORIZATION_URL, query = [],
      headers = [(''Content-Type'', ''application/x-www-form-urlencoded'')],
      form_body = Some (verifyParams params)\<rparr>"

definition callback_params :: "platform \<Rightarrow> Request \<Rightarrow> exn + URLSearchParams" where
  \<comment> \<open>The first two statements of verifyAssertion: the parameters of the callback.
      \<open>req.url!\<close> asserts nothing at run time: a missing url reaches the URL parser as
      the string \<open>undefined\<close>.\<close>
  "callback_params pf req =
     (case newURL pf (case url req of None \<Rightarrow> ''undefined'' | Some s \<Rightarrow> s)
                     (Some ''https://example.com'') of
        Inl e \<Rightarrow> Inl e
      | Inr u \<Rightarrow> Inr (newURLSearchParams pf (search u)))"

definition verifyAssertion ::
  "platform \<Rightarrow> Request \<Rightarrow> string \<Rightarrow> string \<Rightarrow> net \<Rightarrow> (exn + string option) \<times> net" where
  \<comment> \<open>The result \<open>Inr None\<close> is the source's \<open>null\<close>; \<open>Inl\<close> is a rejected promise.\<close>
  "verifyAssertion pf req realm returnTo net =
     (case callback_params pf req of
        Inl e \<Rightarrow> (Inl e, net)
      | Inr params \<Rightarrow>
          if URLSearchParams_get params ''openid.op_endpoint'' \<noteq> Some AUTHORIZATION_URL
             \<or> URLSearchParams_get params ''openid.ns'' \<noteq> Some OPENID_CHECK_ns
          then (Inr None, net)
          else
            let claimed = or_empty (URLSearchParams_get params ''openid.claimed_id'');
                identity = or_empty (URLSearchParams_get params ''openid.identity'')
            in
            if \<not> startsWith claimed OPENID_CHECK_claimed_id then (Inr None, net)
            else if \<not> startsWith identity OPENID_CHECK_identity then (Inr None, net)
            else if URLSearchParams_get params ''openid.return_to'' \<noteq> Some returnTo
            then (Inr None, net)
            else
              let request = verifyRequest params;
                  net' = net @ [request]
              in
              (case fetch pf request of
                 Inl e \<Rightarrow> (Inl e, net')
               | Inr resp \<Rightarrow>
                   if \<not> ok resp then (Inr None, net')
                   else
                     let isValid = is_valid_test (body_text resp) in
                     if \<not> isValid then (Inr None, net')
                     else
                       (case IDENTIFIER_PATTERN claimed of
                          None \<Rightarrow> (Inr None, net')
                        | Some m \<Rightarrow> (Inr (Some m), net'))))"

section \<open>SteamProvider and the callbacks it returns\<close>

record Token =
  access_token :: string
  steamId :: string
  token_type :: string

definition conform ::
  "platform \<Rightarrow> Request \<Rightarrow> string \<Rightarrow> string \<Rightarrow> net \<Rightarrow> (exn + Token) \<times> net" where
  \<comment> \<open>\<open>token.conform\<close>, closed over \<open>req\<close>, \<open>realm\<close> and \<open>returnTo\<close>. \<open>!req.url\<close>
      and \<open>!identifier\<close> hold for a missing value and for the empty string.\<close>
  "conform pf req realm returnTo net =
     (if url req = None \<or> url req = Some []
      then (Inl (Error ''No URL found in request object''), net)
      else
        (case verifyAssertion pf req realm returnTo net of
           (Inl e, net') \<Rightarrow> (Inl e, net')
         | (Inr identifier, net') \<Rightarrow>
             (case identifier of
                None \<Rightarrow> (Inl (Error ''Unauthenticated''), net')
              | Some i \<Rightarrow>
                  if i = [] then (Inl (Error ''Unauthenticated''), net')
                  else (Inr \<lparr>access_token = randomUUID pf, steamId = i,
                             token_type = ''Bearer''\<rparr>, net'))))"

fun getField :: "json \<Rightarrow> string \<Rightarrow> json option" where
  \<comment> \<open>Property access \<open>v.name\<close> on a value that is neither null nor undefined, for the
      names this code reads (response, players, steamid, avatarfull, personaname): no
      built-in prototype defines them, so only an object's own property can answer.\<close>
  "getField (JObj props) name = map_of props name"
| "getField _ name = None"

fun getIndex0 :: "json \<Rightarrow> json option" where
  \<comment> \<open>\<open>v[0]\<close> on a value that is neither null nor undefined: the first element of an
      array, the first character of a string, the property \<open>0\<close> of an object.\<close>
  "getIndex0 (JArr xs) = (case xs of [] \<Rightarrow> None | x # _ \<Rightarrow> Some x)"
| "getIndex0 (JStr s) = (case s of [] \<Rightarrow> None | c # _ \<Rightarrow> Some (JStr [c]))"
| "getIndex0 (JObj props) = map_of props ''0''"
| "getIndex0 _ = None"

definition optional_chain :: "json option \<Rightarrow> (json \<Rightarrow> json option) \<Rightarrow> json option" where
  \<comment> \<open>\<open>v?.access\<close>: undefined when \<open>v\<close> is null or undefined.\<close>
  "optional_chain v access =
     (case v of None \<Rightarrow> None | Some j \<Rightarrow> if j = JNull then None else access j)"

fun truthy :: "json option \<Rightarrow> bool" where
  "truthy None = False"
| "truthy (Some JNull) = False"
| "truthy (Some (JBool b)) = b"
| "truthy (Some (JNum n)) = (n \<noteq> ''0'')"
| "truthy (Some (JStr s)) = (s \<noteq> [])"
| "truthy (Some (JArr xs)) = True"
| "truthy (Some (JObj props)) = True"

fun show_nat :: "nat \<Rightarrow> string" where
  \<comment> \<open>The decimal rendering of \<open>response.status\<close> in a template literal.\<close>
  "show_nat n =
     (if n < 10 then [char_of (48 + n)]
      else show_nat (n div 10) @ [char_of (48 + n mod 10)])"

declare show_nat.simps [simp del]

record ctx =
  provider_clientSecret :: string
  tokens_steamId :: string

definition playerSummariesRequest :: "ctx \<Rightarrow> HttpRequest" where
  \<comment> \<open>The URL built in \<open>userinfo.request\<close>, fetched with the default method.\<close>
  "playerSummariesRequest c =
     \<lparr>http_method = ''GET'',
      target = ''https://api.steampowered.com/ISteamUser/GetPlayerSummaries/v0002'',
      query = URLSearchParams_set
                (URLSearchParams_set [] ''key'' (provider_clientSecret c))
                ''steamids'' (tokens_steamId c),
      headers = [], form_body = None\<rparr>"

definition userinfo_request :: "platform \<Rightarrow> ctx \<Rightarrow> net \<Rightarrow> (exn + json) \<times> net" where
  \<comment> \<open>\<open>userinfo.request\<close>: the inner \<open>case\<close> is the \<open>try\<close> block, the outer one the
      \<open>catch\<close> clause, which rethrows every error under one prefix.\<close>
  "userinfo_request pf c net =
     (let request = playerSummariesRequest c;
          net' = net @ [request]
      in
      (case
         (case fetch pf request of
            Inl e \<Rightarrow> Inl e
          | Inr response \<Rightarrow>
              if \<not> ok response
              then Inl (Error (''Steam API error: '' @ show_nat (status response) @ '' ''
                               @ statusText response))
              else
                (case json_parse pf (body_text response) of
                   Inl e \<Rightarrow> Inl e
                 | Inr data \<Rightarrow>
                     let player =
                           optional_chain
                             (optional_chain
                                (optional_chain (Some data) (\<lambda>d. getField d ''response''))
                                (\<lambda>r. getField r ''players''))
                             getIndex0
                     in
                     if \<not> truthy player then Inl (Error ''Steam profile not found'')
                     else (case player of
                             None \<Rightarrow> Inl (Error ''Steam profile not found'')
                           | Some p \<Rightarrow> Inr p)))
       of
         Inl err \<Rightarrow> (Inl (Error (''Failed to fetch Steam user info: '' @ message err)), net')
       | Inr p \<Rightarrow> (Inr p, net')))"

fun join_comma :: "(exn + string) list \<Rightarrow> exn + string" where
  \<comment> \<open>\<open>Array.prototype.join\<close> with the default separator, over the elements'
      conversions in order: the first conversion that throws ends it.\<close>
  "join_comma [] = Inr []"
| "join_comma (x # rest) =
     (case x of
        Inl e \<Rightarrow> Inl e
      | Inr s \<Rightarrow>
          (case rest of
             [] \<Rightarrow> Inr s
           | _ # _ \<Rightarrow>
               (case join_comma rest of Inl e \<Rightarrow> Inl e | Inr t \<Rightarrow> Inr (s @ '','' @ t))))"

fun json_toString :: "json \<Rightarrow> exn + string" where
  \<comment> \<open>The string a template literal interpolates for a value. An array joins its
      elements, null elements as empty strings. An object is \<open>[object Object]\<close>, unless
      an own property \<open>toString\<close> (never callable in parsed JSON) shadows the inherited
      method: then no conversion to a primitive exists and a TypeError is thrown.\<close>
  "json_toString JNull = Inr ''null''"
| "json_toString (JBool b) = Inr (if b then ''true'' else ''false'')"
| "json_toString (JNum n) = Inr n"
| "json_toString (JStr s) = Inr s"
| "json_toString (JArr xs) =
     join_comma (map (\<lambda>x. if x = JNull then Inr [] else json_toString x) xs)"
| "json_toString (JObj props) =
     (case map_of props ''toString'' of
        None \<Rightarrow> Inr ''[object Object]''
      | Some _ \<Rightarrow> Inl (TypeError ''Cannot convert object to primitive value''))"

definition toString :: "json option \<Rightarrow> exn + string" where
  "toString v = (case v of None \<Rightarrow> Inr ''undefined'' | Some j \<Rightarrow> json_toString j)"

record NormalizedProfile =
  id' :: "json option"
  image :: "json option"
  email :: string
  name :: "json option"

definition profile :: "json \<Rightarrow> exn + NormalizedProfile" where
  \<comment> \<open>The \<open>profile\<close> callback. Its parameter is typed \<open>SteamProfile\<close>, an object whose
      \<open>steamid\<close>, \<open>avatarfull\<close> and \<open>personaname\<close> are strings; at run time it is
      whatever \<open>userinfo.request\<close> returned. Reading a property of null throws, and so
      does the template literal when \<open>steamid\<close> has no string conversion.\<close>
  "profile p =
     (if p = JNull then Inl (TypeError ''Cannot read properties of null'')
      else
        (case toString (getField p ''steamid'') of
           Inl e \<Rightarrow> Inl e
         | Inr steamid \<Rightarrow>
             Inr \<lparr>id' = getField p ''steamid'',
                  image = getField p ''avatarfull'',
                  email = steamid @ ''@'' @ EMAIL_DOMAIN,
                  name = getField p ''personaname''\<rparr>))"

record SteamProviderOptions =
  callbackUrl :: string
  clientSecret :: "string option"

record OAuthConfig =
  clientId :: string
  config_clientSecret :: string
  config_id :: string
  config_name :: string
  config_type :: string
  style_logo :: string
  style_bg :: string
  style_text :: string
  checks :: "string list"
  authorization_url :: string
  authorization_params :: "(string \<times> string) list"
  token_url :: string
  token_conform :: "net \<Rightarrow> (exn + Token) \<times> net"
  userinfo_url :: string
  userinfo_request' :: "ctx \<Rightarrow> net \<Rightarrow> (exn + json) \<times> net"
  config_profile :: "json \<Rightarrow> exn + NormalizedProfile"

definition SteamProvider ::
  "platform \<Rightarrow> Request \<Rightarrow> SteamProviderOptions \<Rightarrow> net \<Rightarrow> (exn + OAuthConfig) \<times> net" where
  \<comment> \<open>The factory. It hands no request to \<open>fetch\<close>, so the network log it is given
      is the one it returns.\<close>
  "SteamProvider pf req options net =
     (case clientSecret options of
        None \<Rightarrow>
          (Inl (Error ''You have forgot to set your Steam API Key in the `clientSecret` option. Please visit https://steamcommunity.com/dev/apikey to get one.''), net)
      | Some secret \<Rightarrow>
          if secret = [] \<or> length secret < 1 then
            (Inl (Error ''You have forgot to set your Steam API Key in the `clientSecret` option. Please visit https://steamcommunity.com/dev/apikey to get one.''), net)
          else
            (case newURL pf (callbackUrl options) None of
               Inl e \<Rightarrow> (Inl e, net)
             | Inr callbackUrl' \<Rightarrow>
                 let realm = origin callbackUrl';
                     returnTo = href callbackUrl' @ ''/'' @ PROVIDER_ID
                 in
                 (Inr \<lparr>clientId = PROVIDER_ID,
                       config_clientSecret = secret,
                       config_id = PROVIDER_ID,
                       config_name = PROVIDER_NAME,
                       config_type = ''oauth'',
                       style_logo = LOGO_URL,
                       style_bg = ''#000'',
                       style_text = ''#fff'',
                       checks = [''none''],
                       authorization_url = AUTHORIZATION_URL,
                       authorization_params =
                         [(''openid.mode'', ''checkid_setup''),
                          (''openid.ns'', ''http://specs.openid.net/auth/2.0''),
                          (''openid.identity'',
                           ''http://specs.openid.net/auth/2.0/identifier_select''),
                          (''openid.claimed_id'',
                           ''http://specs.openid.net/auth/2.0/identifier_select''),
                          (''openid.return_to'', returnTo),
                          (''openid.realm'', realm)],
                       token_url = href callbackUrl' @ ''/steam'',
                       token_conform = conform pf req realm returnTo,
                       userinfo_url = href callbackUrl' @ ''/steam'',
                       userinfo_request' = userinfo_request pf,
                       config_profile = profile\<rparr>, net)))"

section \<open>The specification's readings, for comparison with the code\<close>

definition passes_structural_checks :: "string \<Rightarrow> URLSearchParams \<Rightarrow> bool" where
  \<comment> \<open>The five checks of the specification's assertion parameter validator.\<close>
  "passes_structural_checks returnTo params =
     (URLSearchParams_get params ''openid.op_endpoint'' = Some AUTHORIZATION_URL
      \<and> URLSearchParams_get params ''openid.ns'' = Some ''http://specs.openid.net/auth/2.0''
      \<and> prefix ''https://steamcommunity.com/openid/id/''
           (or_empty (URLSearchParams_get params ''openid.claimed_id''))
      \<and> prefix ''https://steamcommunity.com/openid/id/''
           (or_empty (URLSearchParams_get params ''openid.identity''))
      \<and> URLSearchParams_get params ''openid.return_to'' = Some returnTo)"

fun lines_of :: "string \<Rightarrow> string list" where
  "lines_of [] = [] # []"
| "lines_of (c # cs) =
     (if c = CHR 0x0A then [] # lines_of cs
      else (case lines_of cs of [] \<Rightarrow> [c] # [] | l # ls \<Rightarrow> (c # l) # ls))"

definition spec_is_valid_line :: "string \<Rightarrow> bool" where
  \<comment> \<open>The specification's reading of the re-verification response: the body is
      newline-delimited \<open>key:value\<close> text, and some line has the key \<open>is_valid\<close>
      (in any case) and the value \<open>true\<close>.\<close>
  "spec_is_valid_line body =
     list_ex (\<lambda>l. CHR '':'' \<in> set l
                \<and> map toUpperCase (takeWhile (\<lambda>c. c \<noteq> CHR '':'') l) = ''IS_VALID''
                \<and> drop 1 (dropWhile (\<lambda>c. c \<noteq> CHR '':'') l) = ''true'')
             (lines_of body)"

section \<open>Concrete inputs\<close>

definition stub_platform ::
  "URLSearchParams \<Rightarrow> (HttpRequest \<Rightarrow> exn + Response) \<Rightarrow> (exn + json) \<Rightarrow> platform" where
  \<comment> \<open>A runtime for one callback: the query string of the request parses to \<open>params\<close>,
      the transport is the given stub, and the response body parses to \<open>data\<close>.\<close>
  "stub_platform params transport data =
     \<lparr>newURL = (\<lambda>input base.
                  Inr \<lparr>href = input, origin = ''https://example.com'', search = ''?''\<rparr>),
      newURLSearchParams = (\<lambda>search. params),
      fetch = transport,
      json_parse = (\<lambda>body. data),
      randomUUID = ''123e4567-e89b-42d3-a456-426614174000''\<rparr>"

definition callback_request :: Request where
  "callback_request = \<lparr>url = Some ''https://example.com/api/auth/callback/steam?''\<rparr>"

definition example_returnTo :: string where
  "example_returnTo = ''https://example.com/api/auth/callback/steam''"

definition assertion_params :: "string \<Rightarrow> string \<Rightarrow> URLSearchParams" where
  \<comment> \<open>The parameters an OpenID provider at \<open>endpoint\<close> appends to the callback for
      the account with the given id.\<close>
  "assertion_params endpoint steamid =
     [(''openid.ns'', ''http://specs.openid.net/auth/2.0''),
      (''openid.mode'', ''id_res''),
      (''openid.op_endpoint'', endpoint),
      (''openid.claimed_id'', ''https://steamcommunity.com/openid/id/'' @ steamid),
      (''openid.identity'', ''https://steamcommunity.com/openid/id/'' @ steamid),
      (''openid.return_to'', ''https://example.com/api/auth/callback/steam''),
      (''openid.response_nonce'', ''2026-01-01T00:00:00Zn0nce''),
      (''openid.assoc_handle'', ''1234567890''),
      (''openid.signed'',
       ''signed,op_endpoint,claimed_id,identity,return_to,response_nonce,assoc_handle''),
      (''openid.sig'', ''c2lnbmF0dXJl'')]"

definition respond :: "nat \<Rightarrow> string \<Rightarrow> HttpRequest \<Rightarrow> exn + Response" where
  \<comment> \<open>A transport that answers every request with the given status and body.\<close>
  "respond code body request = Inr \<lparr>status = code, statusText = [], body_text = body\<rparr>"

definition polluted_params :: URLSearchParams where
  \<comment> \<open>A callback that carries \<open>openid.claimed_id\<close> and \<open>openid.identity\<close> twice:
      first for one account, then, inside a whole assertion, for another.\<close>
  "polluted_params =
     [(''openid.claimed_id'', ''https://steamcommunity.com/openid/id/76561197960287930''),
      (''openid.identity'', ''https://steamcommunity.com/openid/id/76561197960287930'')]
     @ assertion_params ''https://steamcommunity.com/openid/login'' ''76561198000000001''"

definition player_record :: "string \<Rightarrow> string \<Rightarrow> json" where
  \<comment> \<open>A player summary as the Steam Web API returns it, cut to a few fields.\<close>
  "player_record steamid persona =
     JObj [(''steamid'', JStr steamid),
           (''communityvisibilitystate'', JNum ''3''),
           (''personaname'', JStr persona),
           (''profileurl'', JStr (''https://steamcommunity.com/profiles/'' @ steamid @ ''/'')),
           (''avatarfull'', JStr ''https://avatars.steamstatic.com/0000_full.jpg'')]"

definition player_summaries :: "json list \<Rightarrow> json" where
  \<comment> \<open>The envelope of GetPlayerSummaries around a list of records.\<close>
  "player_summaries players = JObj [(''response'', JObj [(''players'', JArr players)])]"

definition example_ctx :: ctx where
  "example_ctx =
     \<lparr>provider_clientSecret = ''0123456789ABCDEF0123456789ABCDEF'',
      tokens_steamId = ''76561197960287930''\<rparr>"

definition lowercasing_platform :: platform where
  \<comment> \<open>A runtime whose URL parser answers as the WHATWG parser does on one input: the
      scheme and the host of a URL are lower-cased when it is serialised.\<close>
  "lowercasing_platform =
     \<lparr>newURL = (\<lambda>input base.
                  if input = ''HTTPS://EXAMPLE.COM/api/auth/callback''
                  then Inr \<lparr>href = ''https://example.com/api/auth/callback'',
                            origin = ''https://example.com'', search = []\<rparr>
                  else Inl (TypeError ''Invalid URL'')),
      newURLSearchParams = (\<lambda>search. []),
      fetch = respond 200 [],
      json_parse = (\<lambda>body. Inr JNull),
      randomUUID = ''123e4567-e89b-42d3-a456-426614174000''\<rparr>"

definition returnTo_of :: "exn + OAuthConfig \<Rightarrow> string option" where
  \<comment> \<open>The \<open>openid.return_to\<close> a constructed provider sends to the authorization endpoint.\<close>
  "returnTo_of result =
     (case result of
        Inl e \<Rightarrow> None
      | Inr config \<Rightarrow> URLSearchParams_get (authorization_params config) ''openid.return_to'')"

definition realm_sensitive_transport :: "HttpRequest \<Rightarrow> exn + Response" where
  \<comment> \<open>A transport that confirms an assertion only when the body it is sent carries
      \<open>openid.realm=https://example.com\<close>.\<close>
  "realm_sensitive_transport request =
     (case form_body request of
        None \<Rightarrow> respond 200 ''is_valid:false'' request
      | Some body \<Rightarrow>
          if URLSearchParams_get body ''openid.realm'' = Some ''https://example.com''
          then respond 200 ''is_valid:true'' request
          else respond 200 ''is_valid:false'' request)"

section \<open>The regular expressions, characterised\<close>

lemma toUpperCase_not_space:
  "toUpperCase c = CHR ''T'' \<Longrightarrow> \<not> is_space c"
  by (auto simp add: toUpperCase_def is_space_def char_of_eq_iff split: if_splits)

lemma colon_not_space: "\<not> is_space CHR '':''"
  by (simp add: is_space_def)

lemma match_literal_i_iff:
  "match_literal_i p s = Some r \<longleftrightarrow> (\<exists>a. s = a @ r \<and> map toUpperCase a = map toUpperCase p)"
proof (induction p s rule: match_literal_i.induct)
  case (1 s)
  then show ?case by auto
next
  case (2 p ps)
  then show ?case by auto
next
  case (3 p ps c cs)
  then show ?case
    by (auto simp add: Cons_eq_append_conv map_eq_Cons_conv)
qed

lemma match_literal_iff:
  "match_literal p s = Some r \<longleftrightarrow> s = p @ r"
  by (induction p s rule: match_literal.induct) auto

lemma upper_is_valid: "map toUpperCase ''is_valid'' = ''IS_VALID''"
  by (simp add: toUpperCase_def char_of_eq_iff)

lemma upper_true: "map toUpperCase ''true'' = ''TRUE''"
  by (simp add: toUpperCase_def char_of_eq_iff)

lemma dropWhile_spaces:
  "list_all is_space w \<Longrightarrow> \<not> is_space c \<Longrightarrow> dropWhile is_space (w @ c # r) = c # r"
  by (induction w) auto

lemma regex_here_iff:
  assumes p2: "\<And>c. toUpperCase c = toUpperCase t \<Longrightarrow> \<not> is_space c"
  shows "(case match_literal_i p1 s of
            None \<Rightarrow> False
          | Some r \<Rightarrow>
              (case dropWhile is_space r of
                 [] \<Rightarrow> False
               | c # r' \<Rightarrow>
                   c = CHR '':'' \<and>
                   (case match_literal_i (t # p2) (dropWhile is_space r') of
                      None \<Rightarrow> False
                    | Some _ \<Rightarrow> True)))
         \<longleftrightarrow>
         (\<exists>a w1 w2 b post. s = a @ w1 @ [CHR '':''] @ w2 @ b @ post
            \<and> map toUpperCase a = map toUpperCase p1 \<and> list_all is_space w1
            \<and> list_all is_space w2 \<and> map toUpperCase b = map toUpperCase (t # p2))"
  (is "?L \<longleftrightarrow> ?R")
proof
  assume L: ?L
  then obtain r where r: "match_literal_i p1 s = Some r"
    by (cases "match_literal_i p1 s") simp_all
  with L obtain r' where r': "dropWhile is_space r = CHR '':'' # r'"
    by (cases "dropWhile is_space r") simp_all
  with L r obtain post where
    post: "match_literal_i (t # p2) (dropWhile is_space r') = Some post"
    by (cases "match_literal_i (t # p2) (dropWhile is_space r')") simp_all
  from r obtain a where a: "s = a @ r" "map toUpperCase a = map toUpperCase p1"
    unfolding match_literal_i_iff by blast
  from post obtain b where
    b: "dropWhile is_space r' = b @ post" "map toUpperCase b = map toUpperCase (t # p2)"
    unfolding match_literal_i_iff by blast
  have "r = takeWhile is_space r @ CHR '':'' # r'"
    using r' takeWhile_dropWhile_id [of is_space r] by simp
  moreover have "r' = takeWhile is_space r' @ b @ post"
    using b takeWhile_dropWhile_id [of is_space r'] by simp
  ultimately have
    "s = a @ takeWhile is_space r @ [CHR '':''] @ takeWhile is_space r' @ b @ post"
    using a by simp
  moreover have "list_all is_space (takeWhile is_space r)"
    "list_all is_space (takeWhile is_space r')"
    by (auto simp add: list_all_iff dest: set_takeWhileD)
  ultimately show ?R using a b by blast
next
  assume ?R
  then obtain a w1 w2 b post where s: "s = a @ w1 @ [CHR '':''] @ w2 @ b @ post"
    and a: "map toUpperCase a = map toUpperCase p1" and w1: "list_all is_space w1"
    and w2: "list_all is_space w2" and b: "map toUpperCase b = map toUpperCase (t # p2)"
    by blast
  have m1: "match_literal_i p1 s = Some (w1 @ [CHR '':''] @ w2 @ b @ post)"
    unfolding match_literal_i_iff using s a by blast
  have d1: "dropWhile is_space (w1 @ [CHR '':''] @ w2 @ b @ post)
              = CHR '':'' # (w2 @ b @ post)"
    using dropWhile_spaces [OF w1 colon_not_space] by simp
  from b obtain t' b' where bt: "b = t' # b'" "toUpperCase t' = toUpperCase t"
    by (auto simp add: map_eq_Cons_conv)
  have d2: "dropWhile is_space (w2 @ b @ post) = b @ post"
    using dropWhile_spaces [OF w2 p2 [OF bt(2)]] bt(1) by simp
  have m2: "match_literal_i (t # p2) (b @ post) = Some post"
    unfolding match_literal_i_iff using b by blast
  show ?L
    by (simp only: m1 d1 d2 m2 option.case list.case simp_thms)
qed

lemma upper_t: "toUpperCase CHR ''t'' = CHR ''T''"
  by (simp add: toUpperCase_def char_of_eq_iff)

lemma T_not_space: "toUpperCase c = toUpperCase CHR ''t'' \<Longrightarrow> \<not> is_space c"
  unfolding upper_t by (rule toUpperCase_not_space)

lemma is_valid_here_iff:
  "is_valid_here s \<longleftrightarrow>
     (\<exists>a w1 w2 b post. s = a @ w1 @ '':'' @ w2 @ b @ post
        \<and> map toUpperCase a = ''IS_VALID'' \<and> list_all is_space w1
        \<and> list_all is_space w2 \<and> map toUpperCase b = ''TRUE'')"
  unfolding is_valid_here_def
  by (simp only: regex_here_iff [of "CHR ''t''", OF T_not_space] upper_is_valid upper_true)

lemma is_valid_test_suffix:
  "is_valid_test s \<longleftrightarrow> (\<exists>pre t. s = pre @ t \<and> is_valid_here t)"
proof (induction s)
  case Nil
  then show ?case by simp
next
  case (Cons c cs)
  have "(\<exists>pre t. c # cs = pre @ t \<and> is_valid_here t)
          \<longleftrightarrow> is_valid_here (c # cs) \<or> (\<exists>pre t. cs = pre @ t \<and> is_valid_here t)"
    by (auto simp add: Cons_eq_append_conv)
  then show ?case using Cons.IH by simp
qed

lemma is_valid_test_iff:
  "is_valid_test s \<longleftrightarrow>
     (\<exists>pre a w1 w2 b post. s = pre @ a @ w1 @ '':'' @ w2 @ b @ post
        \<and> map toUpperCase a = ''IS_VALID'' \<and> list_all is_space w1
        \<and> list_all is_space w2 \<and> map toUpperCase b = ''TRUE'')"
  (is "?L \<longleftrightarrow> ?R")
proof
  assume ?L
  then have "\<exists>pre t. s = pre @ t \<and> is_valid_here t"
    by (rule iffD1 [OF is_valid_test_suffix])
  then obtain pre t where t: "s = pre @ t" "is_valid_here t"
    by (elim exE conjE)
  from t(2) have "\<exists>a w1 w2 b post. t = a @ w1 @ '':'' @ w2 @ b @ post
        \<and> map toUpperCase a = ''IS_VALID'' \<and> list_all is_space w1
        \<and> list_all is_space w2 \<and> map toUpperCase b = ''TRUE''"
    by (rule iffD1 [OF is_valid_here_iff])
  then obtain a w1 w2 b post where h: "t = a @ w1 @ '':'' @ w2 @ b @ post"
    "map toUpperCase a = ''IS_VALID''" "list_all is_space w1"
    "list_all is_space w2" "map toUpperCase b = ''TRUE''"
    by (elim exE conjE)
  have "s = pre @ a @ w1 @ '':'' @ w2 @ b @ post"
    by (simp only: t(1) h(1))
  then show ?R
    using h(2-5) by (intro exI conjI)
next
  assume ?R
  then obtain pre a w1 w2 b post where h: "s = pre @ a @ w1 @ '':'' @ w2 @ b @ post"
    "map toUpperCase a = ''IS_VALID''" "list_all is_space w1"
    "list_all is_space w2" "map toUpperCase b = ''TRUE''"
    by (elim exE conjE)
  have "\<exists>a' w1' w2' b' post'.
          a @ w1 @ '':'' @ w2 @ b @ post = a' @ w1' @ '':'' @ w2' @ b' @ post'
          \<and> map toUpperCase a' = ''IS_VALID'' \<and> list_all is_space w1'
          \<and> list_all is_space w2' \<and> map toUpperCase b' = ''TRUE''"
    using refl h(2-5) by (intro exI conjI)
  then have "is_valid_here (a @ w1 @ '':'' @ w2 @ b @ post)"
    by (rule iffD2 [OF is_valid_here_iff])
  with h(1) have "\<exists>pre t. s = pre @ t \<and> is_valid_here t"
    by (intro exI conjI)
  then show ?L by (rule iffD2 [OF is_valid_test_suffix])
qed

lemma IDENTIFIER_PATTERN_https:
  "IDENTIFIER_PATTERN (''https://steamcommunity.com/openid/id/'' @ ds)
     = (if ds \<noteq> [] \<and> list_all is_digit ds then Some ds else None)"
  by (simp add: IDENTIFIER_PATTERN_def)

lemma IDENTIFIER_PATTERN_http:
  "IDENTIFIER_PATTERN (''http://steamcommunity.com/openid/id/'' @ ds)
     = (if ds \<noteq> [] \<and> list_all is_digit ds then Some ds else None)"
  by (simp add: IDENTIFIER_PATTERN_def)

lemma IDENTIFIER_PATTERN_Some:
  "IDENTIFIER_PATTERN s = Some ds \<Longrightarrow>
     (s = ''https://steamcommunity.com/openid/id/'' @ ds
      \<or> s = ''http://steamcommunity.com/openid/id/'' @ ds)
     \<and> ds \<noteq> [] \<and> list_all is_digit ds"
  unfolding IDENTIFIER_PATTERN_def
  by (auto simp add: match_literal_iff split: option.splits list.splits if_splits)

section \<open>verifyAssertion, case by case\<close>

lemma verifyAssertion_unparsable:
  "callback_params pf req = Inl e \<Longrightarrow> verifyAssertion pf req realm returnTo net = (Inl e, net)"
  by (simp add: verifyAssertion_def)

lemma verifyAssertion_rejected:
  assumes "callback_params pf req = Inr params"
    and "\<not> passes_structural_checks returnTo params"
  shows "verifyAssertion pf req realm returnTo net = (Inr None, net)"
  using assms
  unfolding verifyAssertion_def passes_structural_checks_def startsWith_def
    OPENID_CHECK_ns_def OPENID_CHECK_claimed_id_def OPENID_CHECK_identity_def Let_def
  by (simp only: sum.case simp_thms de_Morgan_conj split: if_split) blast

lemma verifyAssertion_accepted:
  assumes "callback_params pf req = Inr params"
    and "passes_structural_checks returnTo params"
  shows "verifyAssertion pf req realm returnTo net =
           ((case fetch pf (verifyRequest params) of
               Inl e \<Rightarrow> Inl e
             | Inr resp \<Rightarrow>
                 if ok resp \<and> is_valid_test (body_text resp)
                 then Inr (IDENTIFIER_PATTERN
                             (or_empty (URLSearchParams_get params ''openid.claimed_id'')))
                 else Inr None),
            net @ [verifyRequest params])"
proof -
  have checks:
    "URLSearchParams_get params ''openid.op_endpoint'' = Some AUTHORIZATION_URL"
    "URLSearchParams_get params ''openid.ns'' = Some OPENID_CHECK_ns"
    "startsWith (or_empty (URLSearchParams_get params ''openid.claimed_id''))
       OPENID_CHECK_claimed_id"
    "startsWith (or_empty (URLSearchParams_get params ''openid.identity''))
       OPENID_CHECK_identity"
    "URLSearchParams_get params ''openid.return_to'' = Some returnTo"
    using assms(2)
    unfolding passes_structural_checks_def startsWith_def
      OPENID_CHECK_ns_def OPENID_CHECK_claimed_id_def OPENID_CHECK_identity_def
    by (simp_all only:)
  show ?thesis
    unfolding verifyAssertion_def Let_def
    by (simp only: assms(1) checks sum.case simp_thms if_False if_True)
       (simp split: sum.split option.split)
qed

lemma verifyAssertion_marker_anywhere:
  assumes "callback_params pf req = Inr params"
    and "passes_structural_checks returnTo params"
    and "fetch pf (verifyRequest params) = Inr resp"
    and "ok resp"
  shows "((\<exists>pre a w1 w2 b post.
             body_text resp = pre @ a @ w1 @ '':'' @ w2 @ b @ post
             \<and> map toUpperCase a = ''IS_VALID'' \<and> list_all is_space w1
             \<and> list_all is_space w2 \<and> map toUpperCase b = ''TRUE'')
          \<longrightarrow> fst (verifyAssertion pf req realm returnTo net)
                = Inr (IDENTIFIER_PATTERN
                         (or_empty (URLSearchParams_get params ''openid.claimed_id''))))
       \<and> ((\<nexists>pre a w1 w2 b post.
             body_text resp = pre @ a @ w1 @ '':'' @ w2 @ b @ post
             \<and> map toUpperCase a = ''IS_VALID'' \<and> list_all is_space w1
             \<and> list_all is_space w2 \<and> map toUpperCase b = ''TRUE'')
          \<longrightarrow> fst (verifyAssertion pf req realm returnTo net) = Inr None)"
  unfolding is_valid_test_iff [symmetric]
proof (cases "is_valid_test (body_text resp)")
  case True
  then show "(is_valid_test (body_text resp)
          \<longrightarrow> fst (verifyAssertion pf req realm returnTo net)
                = Inr (IDENTIFIER_PATTERN
                         (or_empty (URLSearchParams_get params ''openid.claimed_id''))))
       \<and> (\<not> is_valid_test (body_text resp)
          \<longrightarrow> fst (verifyAssertion pf req realm returnTo net) = Inr None)"
    by (simp only: verifyAssertion_accepted [OF assms(1,2)] assms(3,4) fst_conv sum.case
        simp_thms if_True)
next
  case False
  then show "(is_valid_test (body_text resp)
          \<longrightarrow> fst (verifyAssertion pf req realm returnTo net)
                = Inr (IDENTIFIER_PATTERN
                         (or_empty (URLSearchParams_get params ''openid.claimed_id''))))
       \<and> (\<not> is_valid_test (body_text resp)
          \<longrightarrow> fst (verifyAssertion pf req realm returnTo net) = Inr None)"
    by (simp only: verifyAssertion_accepted [OF assms(1,2)] assms(3,4) fst_conv sum.case
        simp_thms if_False)
qed

section \<open>The concrete inputs, evaluated\<close>

lemma callback_params_stub:
  "callback_params (stub_platform params transport data) callback_request = Inr params"
  by (simp add: callback_params_def stub_platform_def callback_request_def)

lemma forged_endpoint_fails:
  "\<not> passes_structural_checks example_returnTo
       (assertion_params ''https://evil.example/openid/login'' ''76561197960287930'')"
  by (simp add: passes_structural_checks_def assertion_params_def AUTHORIZATION_URL_def)

lemma genuine_assertion_passes:
  "passes_structural_checks example_returnTo
       (assertion_params ''https://steamcommunity.com/openid/login'' ''76561197960287930'')"
  by (simp add: passes_structural_checks_def assertion_params_def AUTHORIZATION_URL_def
      example_returnTo_def or_empty_def)

lemma fetch_stub: "fetch (stub_platform params transport data) = transport"
  by (simp add: stub_platform_def)

lemma ok_200: "ok \<lparr>status = 200, statusText = s, body_text = b\<rparr>"
  by (simp add: ok_def)


lemma is_valid_test_plain:
  "is_valid_test ''ns:http://specs.openid.net/auth/2.0\<newline>is_valid:true\<newline>''"
  by (simp add: is_valid_here_def toUpperCase_def is_space_def char_of_eq_iff)

lemma digits_example: "list_all is_digit ''76561197960287930''"
  by (simp add: is_digit_def)

lemma is_valid_test_embedded:
  "is_valid_test ''is_valid:false\<newline>error:expected is_valid:true''"
  by (simp add: is_valid_here_def toUpperCase_def is_space_def char_of_eq_iff)

lemma spec_rejects_embedded:
  "\<not> spec_is_valid_line ''is_valid:false\<newline>error:expected is_valid:true''"
  by (simp add: spec_is_valid_line_def toUpperCase_def char_of_eq_iff)

lemma IDENTIFIER_PATTERN_example:
  "IDENTIFIER_PATTERN ''https://steamcommunity.com/openid/id/76561197960287930''
     = Some ''76561197960287930''"
  using IDENTIFIER_PATTERN_https [of "''76561197960287930''"] digits_example by simp

lemma claimed_id_example:
  "or_empty (URLSearchParams_get
       (assertion_params ''https://steamcommunity.com/openid/login'' ''76561197960287930'')
       ''openid.claimed_id'')
     = ''https://steamcommunity.com/openid/id/76561197960287930''"
  by (simp add: assertion_params_def or_empty_def)

lemma verifyAssertion_stub_200:
  "is_valid_test body \<Longrightarrow>
   verifyAssertion
     (stub_platform
        (assertion_params ''https://steamcommunity.com/openid/login'' ''76561197960287930'')
        (respond 200 body) data)
     callback_request realm example_returnTo net
   = (Inr (Some ''76561197960287930''),
      net @ [verifyRequest
        (assertion_params ''https://steamcommunity.com/openid/login'' ''76561197960287930'')])"
  by (simp only: verifyAssertion_accepted [OF callback_params_stub genuine_assertion_passes]
      fetch_stub respond_def sum.case ok_200 Response.simps simp_thms if_True
      claimed_id_example IDENTIFIER_PATTERN_example)

lemma is_valid_test_false: "\<not> is_valid_test ''is_valid:false''"
  by (simp add: is_valid_here_def toUpperCase_def is_space_def char_of_eq_iff)

lemma callback_request_url:
  "url callback_request = Some ''https://example.com/api/auth/callback/steam?''"
  by (simp add: callback_request_def)


section \<open>The re-verification payload\<close>

lemma URLSearchParams_set_fresh:
  "key \<notin> fst ` set ps \<Longrightarrow> URLSearchParams_set ps key val = ps @ [(key, val)]"
  by (induction ps) auto

lemma copy_params_distinct:
  "distinct (map fst params) \<Longrightarrow> fst ` set params \<inter> fst ` set acc = {} \<Longrightarrow>
   copy_params params acc = acc @ filter (\<lambda>kv. fst kv \<noteq> ''openid.mode'') params"
proof (induction params acc rule: copy_params.induct)
  case (1 verifyParams)
  then show ?case by simp
next
  case (2 k v rest verifyParams)
  show ?case
  proof (cases "k = ''openid.mode''")
    case True
    with 2 show ?thesis by auto
  next
    case False
    from 2(3,4) have fresh: "k \<notin> fst ` set verifyParams" by auto
    have "fst ` set rest \<inter> fst ` set (verifyParams @ [(k, v)]) = {}"
      using 2(3,4) by (auto simp add: image_iff)
    with 2 False fresh show ?thesis
      by (simp add: URLSearchParams_set_fresh)
  qed
qed

lemma verifyParams_distinct:
  assumes "distinct (map fst params)"
  shows "verifyParams params
           = filter (\<lambda>kv. fst kv \<noteq> ''openid.mode'') params
             @ [(''openid.mode'', ''check_authentication'')]"
proof -
  have "copy_params params [] = filter (\<lambda>kv. fst kv \<noteq> ''openid.mode'') params"
    using copy_params_distinct [OF assms, of "[]"] by simp
  moreover have "''openid.mode'' \<notin> fst ` set (filter (\<lambda>kv. fst kv \<noteq> ''openid.mode'') params)"
    by auto
  ultimately show ?thesis
    unfolding verifyParams_def using URLSearchParams_set_fresh by simp
qed

lemma verifyParams_polluted:
  "verifyParams polluted_params
     = [(''openid.claimed_id'', ''https://steamcommunity.com/openid/id/76561198000000001''),
        (''openid.identity'', ''https://steamcommunity.com/openid/id/76561198000000001''),
        (''openid.ns'', ''http://specs.openid.net/auth/2.0''),
        (''openid.op_endpoint'', ''https://steamcommunity.com/openid/login''),
        (''openid.return_to'', ''https://example.com/api/auth/callback/steam''),
        (''openid.response_nonce'', ''2026-01-01T00:00:00Zn0nce''),
        (''openid.assoc_handle'', ''1234567890''),
        (''openid.signed'',
         ''signed,op_endpoint,claimed_id,identity,return_to,response_nonce,assoc_handle''),
        (''openid.sig'', ''c2lnbmF0dXJl''),
        (''openid.mode'', ''check_authentication'')]"
  by (simp add: verifyParams_def polluted_params_def assertion_params_def)

lemma polluted_params_pass:
  "passes_structural_checks example_returnTo polluted_params"
  by (simp add: passes_structural_checks_def polluted_params_def assertion_params_def
      AUTHORIZATION_URL_def example_returnTo_def or_empty_def)

lemma polluted_params_verified_as_first_value:
  "verifyAssertion
     (stub_platform polluted_params (respond 200 ''is_valid:true'') (Inr JNull))
     callback_request ''https://example.com'' example_returnTo []
   = (Inr (Some ''76561197960287930''), [verifyRequest polluted_params])"
proof -
  have v: "is_valid_test ''is_valid:true''"
    by (simp add: is_valid_here_def toUpperCase_def is_space_def char_of_eq_iff)
  have c: "or_empty (URLSearchParams_get polluted_params ''openid.claimed_id'')
             = ''https://steamcommunity.com/openid/id/76561197960287930''"
    by (simp add: polluted_params_def or_empty_def)
  show ?thesis
    by (simp only: verifyAssertion_accepted [OF callback_params_stub polluted_params_pass]
        fetch_stub respond_def sum.case ok_200 Response.simps simp_thms if_True
        c IDENTIFIER_PATTERN_example v append_Nil)
qed

section \<open>Reading parameters other than openid.realm\<close>

lemma URLSearchParams_get_filter:
  "key \<noteq> other \<Longrightarrow>
   URLSearchParams_get (filter (\<lambda>kv. fst kv \<noteq> other) ps) key = URLSearchParams_get ps key"
  by (induction ps) auto

lemma URLSearchParams_get_without_realm:
  assumes "filter (\<lambda>kv. fst kv \<noteq> ''openid.realm'') ps1
             = filter (\<lambda>kv. fst kv \<noteq> ''openid.realm'') ps2"
    and "key \<noteq> ''openid.realm''"
  shows "URLSearchParams_get ps1 key = URLSearchParams_get ps2 key"
  using URLSearchParams_get_filter [OF assms(2), of ps1]
        URLSearchParams_get_filter [OF assms(2), of ps2] assms(1)
  by (simp only:)

lemma passes_structural_checks_without_realm:
  assumes "filter (\<lambda>kv. fst kv \<noteq> ''openid.realm'') params1
             = filter (\<lambda>kv. fst kv \<noteq> ''openid.realm'') params2"
  shows "passes_structural_checks returnTo params1 = passes_structural_checks returnTo params2"
proof -
  have g: "URLSearchParams_get params1 ''openid.op_endpoint''
             = URLSearchParams_get params2 ''openid.op_endpoint''"
    "URLSearchParams_get params1 ''openid.ns'' = URLSearchParams_get params2 ''openid.ns''"
    "URLSearchParams_get params1 ''openid.claimed_id''
       = URLSearchParams_get params2 ''openid.claimed_id''"
    "URLSearchParams_get params1 ''openid.identity''
       = URLSearchParams_get params2 ''openid.identity''"
    "URLSearchParams_get params1 ''openid.return_to''
       = URLSearchParams_get params2 ''openid.return_to''"
    by (rule URLSearchParams_get_without_realm [OF assms], simp)+
  show ?thesis
    unfolding passes_structural_checks_def by (simp only: g)
qed

section \<open>The profile lookup\<close>

lemma getField_not_null: "getField j key = Some v \<Longrightarrow> j \<noteq> JNull"
  by (cases j) simp_all

lemma userinfo_request_parsed:
  assumes "fetch pf (playerSummariesRequest c) = Inr response"
    and "ok response"
    and "json_parse pf (body_text response) = Inr data"
  shows "fst (userinfo_request pf c net) =
           (case optional_chain
                   (optional_chain
                      (optional_chain (Some data) (\<lambda>d. getField d ''response''))
                      (\<lambda>r. getField r ''players''))
                   getIndex0 of
              None \<Rightarrow> Inl (Error ''Failed to fetch Steam user info: Steam profile not found'')
            | Some p \<Rightarrow>
                if truthy (Some p) then Inr p
                else Inl (Error ''Failed to fetch Steam user info: Steam profile not found''))"
  unfolding userinfo_request_def Let_def
  by (simp add: assms split: option.split)

lemma userinfo_request_unparsable:
  assumes "fetch pf (playerSummariesRequest c) = Inr response"
    and "ok response"
    and "json_parse pf (body_text response) = Inl e"
  shows "fst (userinfo_request pf c net)
           = Inl (Error (''Failed to fetch Steam user info: '' @ message e))"
  unfolding userinfo_request_def Let_def
  by (simp add: assms)

lemma players_chain:
  "optional_chain
     (optional_chain
        (optional_chain (Some data) (\<lambda>d. getField d ''response''))
        (\<lambda>r. getField r ''players''))
     getIndex0
   = (case getField data ''response'' of
        None \<Rightarrow> None
      | Some r \<Rightarrow>
          (case getField r ''players'' of
             None \<Rightarrow> None
           | Some pl \<Rightarrow> if pl = JNull then None else getIndex0 pl))"
proof (cases "getField data ''response''")
  case None
  then show ?thesis by (simp add: optional_chain_def)
next
  case (Some r)
  then have d: "data \<noteq> JNull" by (rule getField_not_null)
  show ?thesis
  proof (cases "getField r ''players''")
    case None
    with Some d show ?thesis by (simp add: optional_chain_def)
  next
    case (Some pl)
    then have "r \<noteq> JNull" by (rule getField_not_null)
    with Some \<open>getField data ''response'' = Some r\<close> d show ?thesis
      by (simp add: optional_chain_def)
  qed
qed

lemma json_parse_stub: "json_parse (stub_platform params transport data) body = data"
  by (simp add: stub_platform_def)

lemma getField_player_summaries:
  "getField (player_summaries players) ''response'' = Some (JObj [(''players'', JArr players)])"
  "getField (JObj [(''players'', JArr players)]) ''players'' = Some (JArr players)"
  by (simp_all add: player_summaries_def)

lemma newURL_stub:
  "newURL (stub_platform params transport data) input base
     = Inr \<lparr>href = input, origin = ''https://example.com'', search = ''?''\<rparr>"
  by (simp add: stub_platform_def)

section \<open>Claims\<close>

subsection \<open>C1\<close>

text \<open>
  C1. The re-verification request is handed to the transport only when all five
  structural checks pass (and then exactly once); when any of them fails, in particular
  when \<open>openid.op_endpoint\<close> is not the fixed endpoint, the result is null and the
  network log is unchanged.
\<close>

theorem C1_structural_checks_gate_the_network_call:
  assumes "callback_params pf req = Inr params"
  shows "(passes_structural_checks returnTo params \<longrightarrow>
            snd (verifyAssertion pf req realm returnTo net) = net @ [verifyRequest params])
       \<and> (\<not> passes_structural_checks returnTo params \<longrightarrow>
            verifyAssertion pf req realm returnTo net = (Inr None, net))
       \<and> (URLSearchParams_get params ''openid.op_endpoint'' \<noteq> Some AUTHORIZATION_URL \<longrightarrow>
            verifyAssertion pf req realm returnTo net = (Inr None, net))"
proof (intro conjI impI)
  assume "passes_structural_checks returnTo params"
  then show "snd (verifyAssertion pf req realm returnTo net) = net @ [verifyRequest params]"
    by (simp only: verifyAssertion_accepted [OF assms] snd_conv)
next
  assume "\<not> passes_structural_checks returnTo params"
  then show "verifyAssertion pf req realm returnTo net = (Inr None, net)"
    by (rule verifyAssertion_rejected [OF assms])
next
  assume "URLSearchParams_get params ''openid.op_endpoint'' \<noteq> Some AUTHORIZATION_URL"
  then have "\<not> passes_structural_checks returnTo params"
    unfolding passes_structural_checks_def by (simp only: simp_thms)
  then show "verifyAssertion pf req realm returnTo net = (Inr None, net)"
    by (rule verifyAssertion_rejected [OF assms])
qed

theorem C1_witness:
  "callback_params
     (stub_platform (assertion_params ''https://evil.example/openid/login'' ''76561197960287930'')
        (respond 200 ''is_valid:true'') (Inr JNull))
     callback_request
   = Inr (assertion_params ''https://evil.example/openid/login'' ''76561197960287930'')
   \<and> verifyAssertion
     (stub_platform (assertion_params ''https://evil.example/openid/login'' ''76561197960287930'')
        (respond 200 ''is_valid:true'') (Inr JNull))
     callback_request ''https://example.com'' example_returnTo []
   = (Inr None, [])"
  using C1_structural_checks_gate_the_network_call
          [OF callback_params_stub,
           of example_returnTo
              "assertion_params ''https://evil.example/openid/login'' ''76561197960287930''"
              "respond 200 ''is_valid:true''" "Inr JNull" "''https://example.com''" "[]"]
        forged_endpoint_fails
  by (simp only: callback_params_stub simp_thms)

subsection \<open>C2\<close>

text \<open>
  C2. The code on a response in which the provider denies the assertion and the
  characters \<open>is_valid:true\<close> occur inside another line: the body has no line with the
  key \<open>is_valid\<close> and the value \<open>true\<close>, yet the unanchored search of
  \<open>is_valid\s*:\s*true\<close> finds the marker and verification yields the identifier.
\<close>

theorem C2_embedded_marker_authenticates:
  "\<not> spec_is_valid_line ''is_valid:false\<newline>error:expected is_valid:true''
   \<and> fst (verifyAssertion
       (stub_platform
          (assertion_params ''https://steamcommunity.com/openid/login'' ''76561197960287930'')
          (respond 200 ''is_valid:false\<newline>error:expected is_valid:true'') (Inr JNull))
       callback_request ''https://example.com'' example_returnTo [])
     = Inr (Some ''76561197960287930'')"
  by (simp only: spec_rejects_embedded verifyAssertion_stub_200 [OF is_valid_test_embedded]
      fst_conv simp_thms)

theorem C2_witness:
  "fst (conform
       (stub_platform
          (assertion_params ''https://steamcommunity.com/openid/login'' ''76561197960287930'')
          (respond 200 ''is_valid:false\<newline>error:expected is_valid:true'') (Inr JNull))
       callback_request ''https://example.com'' example_returnTo [])
     = Inr \<lparr>access_token = ''123e4567-e89b-42d3-a456-426614174000'',
            steamId = ''76561197960287930'', token_type = ''Bearer''\<rparr>"
proof -
  let ?pf = "stub_platform
          (assertion_params ''https://steamcommunity.com/openid/login'' ''76561197960287930'')
          (respond 200 ''is_valid:false\<newline>error:expected is_valid:true'') (Inr JNull)"
  from C2_embedded_marker_authenticates
  have "fst (verifyAssertion ?pf callback_request ''https://example.com'' example_returnTo [])
          = Inr (Some ''76561197960287930'')"
    by (rule conjunct2)
  then obtain n where
    v: "verifyAssertion ?pf callback_request ''https://example.com'' example_returnTo []
          = (Inr (Some ''76561197960287930''), n)"
    by (cases "verifyAssertion ?pf callback_request ''https://example.com''
                 example_returnTo []") simp
  have r: "randomUUID ?pf = ''123e4567-e89b-42d3-a456-426614174000''"
    by (simp add: stub_platform_def)
  show ?thesis
    unfolding conform_def by (simp add: v r callback_request_url)
qed

subsection \<open>C3\<close>

text \<open>
  C3. The code on a callback that carries a key more than once: \<open>verifyParams.set\<close>
  keeps one tuple per key, holding the last inbound value, so an earlier value of a
  repeated key is not in the body of the re-verification request, while \<open>params.get\<close>
  reads exactly that earlier value for the checks and the identifier.
\<close>

theorem C3_duplicate_keys_are_collapsed:
  "(''openid.claimed_id'', ''https://steamcommunity.com/openid/id/76561197960287930'')
     \<in> set polluted_params
   \<and> (''openid.claimed_id'', ''https://steamcommunity.com/openid/id/76561197960287930'')
     \<notin> set (verifyParams polluted_params)
   \<and> URLSearchParams_get (verifyParams polluted_params) ''openid.claimed_id''
     = Some ''https://steamcommunity.com/openid/id/76561198000000001''
   \<and> verifyAssertion
       (stub_platform polluted_params (respond 200 ''is_valid:true'') (Inr JNull))
       callback_request ''https://example.com'' example_returnTo []
     = (Inr (Some ''76561197960287930''), [verifyRequest polluted_params])"
proof (intro conjI)
  show "(''openid.claimed_id'', ''https://steamcommunity.com/openid/id/76561197960287930'')
     \<in> set polluted_params"
    by (simp add: polluted_params_def)
  show "(''openid.claimed_id'', ''https://steamcommunity.com/openid/id/76561197960287930'')
     \<notin> set (verifyParams polluted_params)"
    unfolding verifyParams_polluted by simp
  show "URLSearchParams_get (verifyParams polluted_params) ''openid.claimed_id''
     = Some ''https://steamcommunity.com/openid/id/76561198000000001''"
    unfolding verifyParams_polluted by simp
  show "verifyAssertion
       (stub_platform polluted_params (respond 200 ''is_valid:true'') (Inr JNull))
       callback_request ''https://example.com'' example_returnTo []
     = (Inr (Some ''76561197960287930''), [verifyRequest polluted_params])"
    by (rule polluted_params_verified_as_first_value)
qed

theorem C3_witness:
  "fst (verifyAssertion
       (stub_platform polluted_params (respond 200 ''is_valid:true'') (Inr JNull))
       callback_request ''https://example.com'' example_returnTo [])
     = Inr (Some ''76561197960287930'')
   \<and> form_body (verifyRequest polluted_params)
     = Some [(''openid.claimed_id'', ''https://steamcommunity.com/openid/id/76561198000000001''),
        (''openid.identity'', ''https://steamcommunity.com/openid/id/76561198000000001''),
        (''openid.ns'', ''http://specs.openid.net/auth/2.0''),
        (''openid.op_endpoint'', ''https://steamcommunity.com/openid/login''),
        (''openid.return_to'', ''https://example.com/api/auth/callback/steam''),
        (''openid.response_nonce'', ''2026-01-01T00:00:00Zn0nce''),
        (''openid.assoc_handle'', ''1234567890''),
        (''openid.signed'',
         ''signed,op_endpoint,claimed_id,identity,return_to,response_nonce,assoc_handle''),
        (''openid.sig'', ''c2lnbmF0dXJl''),
        (''openid.mode'', ''check_authentication'')]"
proof
  from C3_duplicate_keys_are_collapsed
  show "fst (verifyAssertion
       (stub_platform polluted_params (respond 200 ''is_valid:true'') (Inr JNull))
       callback_request ''https://example.com'' example_returnTo [])
     = Inr (Some ''76561197960287930'')"
    by (simp only: fst_conv)
  show "form_body (verifyRequest polluted_params)
     = Some [(''openid.claimed_id'', ''https://steamcommunity.com/openid/id/76561198000000001''),
        (''openid.identity'', ''https://steamcommunity.com/openid/id/76561198000000001''),
        (''openid.ns'', ''http://specs.openid.net/auth/2.0''),
        (''openid.op_endpoint'', ''https://steamcommunity.com/openid/login''),
        (''openid.return_to'', ''https://example.com/api/auth/callback/steam''),
        (''openid.response_nonce'', ''2026-01-01T00:00:00Zn0nce''),
        (''openid.assoc_handle'', ''1234567890''),
        (''openid.signed'',
         ''signed,op_endpoint,claimed_id,identity,return_to,response_nonce,assoc_handle''),
        (''openid.sig'', ''c2lnbmF0dXJl''),
        (''openid.mode'', ''check_authentication'')]"
    by (simp only: verifyRequest_def HttpRequest.simps verifyParams_polluted)
qed

subsection \<open>C4\<close>




subsection \<open>C5\<close>

text \<open>
  C5. After the structural checks have passed and the provider has confirmed the
  assertion, the result is decided by the claimed identifier alone: when it is
  \<open>http://\<close> or \<open>https://\<close>, then \<open>steamcommunity.com/openid/id/\<close>, then one or more
  digits and nothing else, the result is exactly that digit string; in every other case
  the result is null.
\<close>

theorem C5_identifier_is_the_captured_digits:
  assumes "callback_params pf req = Inr params"
    and "passes_structural_checks returnTo params"
    and "fetch pf (verifyRequest params) = Inr resp"
    and "ok resp" and "is_valid_test (body_text resp)"
    and "URLSearchParams_get params ''openid.claimed_id'' = Some claimed"
  shows "(\<forall>ds. (claimed = ''https://steamcommunity.com/openid/id/'' @ ds
                 \<or> claimed = ''http://steamcommunity.com/openid/id/'' @ ds)
               \<and> ds \<noteq> [] \<and> list_all is_digit ds
               \<longrightarrow> fst (verifyAssertion pf req realm returnTo net) = Inr (Some ds))
       \<and> ((\<nexists>ds. (claimed = ''https://steamcommunity.com/openid/id/'' @ ds
                 \<or> claimed = ''http://steamcommunity.com/openid/id/'' @ ds)
               \<and> ds \<noteq> [] \<and> list_all is_digit ds)
            \<longrightarrow> fst (verifyAssertion pf req realm returnTo net) = Inr None)"
proof -
  have v: "fst (verifyAssertion pf req realm returnTo net) = Inr (IDENTIFIER_PATTERN claimed)"
    by (simp only: verifyAssertion_accepted [OF assms(1,2)] assms(3-6) fst_conv sum.case
        simp_thms if_True or_empty_def option.case)
  show ?thesis
  proof (intro conjI allI impI)
    fix ds
    assume h: "(claimed = ''https://steamcommunity.com/openid/id/'' @ ds
                 \<or> claimed = ''http://steamcommunity.com/openid/id/'' @ ds)
               \<and> ds \<noteq> [] \<and> list_all is_digit ds"
    then have "IDENTIFIER_PATTERN claimed = Some ds"
      using IDENTIFIER_PATTERN_https [of ds] IDENTIFIER_PATTERN_http [of ds]
      by (elim conjE disjE) (simp_all only: simp_thms if_True)
    with v show "fst (verifyAssertion pf req realm returnTo net) = Inr (Some ds)"
      by (simp only:)
  next
    assume n: "\<nexists>ds. (claimed = ''https://steamcommunity.com/openid/id/'' @ ds
                 \<or> claimed = ''http://steamcommunity.com/openid/id/'' @ ds)
               \<and> ds \<noteq> [] \<and> list_all is_digit ds"
    have "IDENTIFIER_PATTERN claimed = None"
    proof (cases "IDENTIFIER_PATTERN claimed")
      case None
      then show ?thesis .
    next
      case (Some ds)
      from IDENTIFIER_PATTERN_Some [OF Some] n show ?thesis by (elim notE) (rule exI)
    qed
    with v show "fst (verifyAssertion pf req realm returnTo net) = Inr None"
      by (simp only:)
  qed
qed

theorem C5_witness:
  "fst (verifyAssertion
     (stub_platform
        (assertion_params ''https://steamcommunity.com/openid/login'' ''76561197960287930'')
        (respond 200 ''ns:http://specs.openid.net/auth/2.0\<newline>is_valid:true\<newline>'')
        (Inr JNull))
     callback_request ''https://example.com'' example_returnTo [])
   = Inr (Some ''76561197960287930'')"
proof -
  let ?params =
    "assertion_params ''https://steamcommunity.com/openid/login'' ''76561197960287930''"
  let ?body = "''ns:http://specs.openid.net/auth/2.0\<newline>is_valid:true\<newline>''"
  let ?pf = "stub_platform ?params (respond 200 ?body) (Inr JNull)"
  have f: "fetch ?pf (verifyRequest ?params)
             = Inr \<lparr>status = 200, statusText = [], body_text = ?body\<rparr>"
    by (simp only: fetch_stub respond_def)
  have v: "is_valid_test
             (body_text \<lparr>status = 200, statusText = [], body_text = ?body\<rparr>)"
    using is_valid_test_plain by simp
  have c: "URLSearchParams_get ?params ''openid.claimed_id''
             = Some (''https://steamcommunity.com/openid/id/76561197960287930'')"
    by (simp add: assertion_params_def)
  from C5_identifier_is_the_captured_digits
         [OF callback_params_stub genuine_assertion_passes f ok_200 v c,
          of "''https://example.com''" "[]"]
  have "''https://steamcommunity.com/openid/id/76561197960287930''
          = ''https://steamcommunity.com/openid/id/'' @ ''76561197960287930''
        \<and> ''76561197960287930'' \<noteq> [] \<and> list_all is_digit ''76561197960287930''
        \<longrightarrow> fst (verifyAssertion ?pf callback_request ''https://example.com''
                   example_returnTo []) = Inr (Some ''76561197960287930'')"
    by blast
  with digits_example show ?thesis by simp
qed

subsection \<open>C6\<close>

text \<open>
  C6 (as amended). The profile mapping takes \<open>id\<close> and \<open>email\<close> from the \<open>steamid\<close>
  field of the raw record it is given: \<open>id\<close> is that field and \<open>email\<close> is that field
  followed by \<open>@steamcommunity.com\<close>, whatever the other fields are. They are the
  verified identifier exactly when the lookup returned a record with that \<open>steamid\<close>.
\<close>

theorem C6_id_and_email_come_from_the_record:
  assumes "getField p ''steamid'' = Some (JStr s)"
  shows "\<exists>n. profile p = Inr n \<and> id' n = Some (JStr s)
             \<and> email n = s @ ''@steamcommunity.com''"
proof -
  from assms have "p \<noteq> JNull" by (rule getField_not_null)
  then show ?thesis
    unfolding profile_def by (simp add: assms toString_def EMAIL_DOMAIN_def)
qed

theorem C6_witness:
  "\<exists>n. profile (player_record ''76561197960287930'' ''gabe'') = Inr n
       \<and> id' n = Some (JStr ''76561197960287930'')
       \<and> email n = ''76561197960287930@steamcommunity.com''"
proof -
  have "getField (player_record ''76561197960287930'' ''gabe'') ''steamid''
          = Some (JStr ''76561197960287930'')"
    by (simp add: player_record_def)
  from C6_id_and_email_come_from_the_record [OF this] show ?thesis by simp
qed

theorem C6_counterexample:
  "tokens_steamId example_ctx = ''76561197960287930''
   \<and> fst (userinfo_request
       (stub_platform [] (respond 200 [])
          (Inr (player_summaries [player_record ''76561198000000001'' ''other''])))
       example_ctx [])
     = Inr (player_record ''76561198000000001'' ''other'')
   \<and> map_sum (\<lambda>e. e) id' (profile (player_record ''76561198000000001'' ''other''))
     = Inr (Some (JStr ''76561198000000001''))
   \<and> map_sum (\<lambda>e. e) email (profile (player_record ''76561198000000001'' ''other''))
     = Inr ''76561198000000001@steamcommunity.com''"
proof -
  let ?recs = "[player_record ''76561198000000001'' ''other'']"
  let ?pf = "stub_platform [] (respond 200 []) (Inr (player_summaries ?recs))"
  have f: "fetch ?pf (playerSummariesRequest example_ctx)
             = Inr \<lparr>status = 200, statusText = [], body_text = []\<rparr>"
    by (simp only: fetch_stub respond_def)
  have j: "json_parse ?pf (body_text \<lparr>status = 200, statusText = [], body_text = []\<rparr>)
             = Inr (player_summaries ?recs)"
    by (simp only: json_parse_stub)
  have u: "fst (userinfo_request ?pf example_ctx [])
             = Inr (player_record ''76561198000000001'' ''other'')"
    by (simp only: userinfo_request_parsed [OF f ok_200 j])
       (simp add: optional_chain_def player_summaries_def player_record_def)
  have p: "profile (player_record ''76561198000000001'' ''other'')
             = Inr \<lparr>id' = Some (JStr ''76561198000000001''),
                    image = Some (JStr ''https://avatars.steamstatic.com/0000_full.jpg''),
                    email = ''76561198000000001@steamcommunity.com'',
                    name = Some (JStr ''other'')\<rparr>"
    by (simp add: profile_def player_record_def toString_def EMAIL_DOMAIN_def)
  have t: "tokens_steamId example_ctx = ''76561197960287930''"
    by (simp add: example_ctx_def)
  show ?thesis
    by (simp only: u p t map_sum.simps NormalizedProfile.simps simp_thms)
qed

subsection \<open>C7\<close>

text \<open>
  C7 (as amended). When the lookup's transport succeeds, the resolver fails, under its
  prefix \<open>Failed to fetch Steam user info\<close>, with the parser's error when the body
  does not parse, and with \<open>Steam profile not found\<close> when the envelope has no
  \<open>response\<close> or no \<open>players\<close> (missing or null), when \<open>players\<close> is a number, a
  boolean or an empty list, and when the first element of the list is not truthy. When
  \<open>players\<close> is a list whose first element is truthy, that first record is returned,
  however many records follow it.
\<close>

theorem C7_first_record_is_returned:
  assumes "fetch pf (playerSummariesRequest c) = Inr response"
    and "ok response"
  shows "(\<forall>e. json_parse pf (body_text response) = Inl e \<longrightarrow>
            fst (userinfo_request pf c net)
              = Inl (Error (''Failed to fetch Steam user info: '' @ message e)))
       \<and> (\<forall>data. json_parse pf (body_text response) = Inr data \<longrightarrow>
            (getField data ''response'' = None \<or> getField data ''response'' = Some JNull \<longrightarrow>
               fst (userinfo_request pf c net) =
                 Inl (Error ''Failed to fetch Steam user info: Steam profile not found''))
          \<and> (\<forall>r. getField data ''response'' = Some r \<longrightarrow>
               (getField r ''players'' = None \<or> getField r ''players'' = Some JNull
                \<or> (\<exists>n. getField r ''players'' = Some (JNum n))
                \<or> (\<exists>b. getField r ''players'' = Some (JBool b))
                \<or> getField r ''players'' = Some (JArr []) \<longrightarrow>
                  fst (userinfo_request pf c net) =
                    Inl (Error ''Failed to fetch Steam user info: Steam profile not found''))
             \<and> (\<forall>p rest. getField r ''players'' = Some (JArr (p # rest)) \<longrightarrow>
                  fst (userinfo_request pf c net) =
                    (if truthy (Some p) then Inr p
                     else Inl (Error
                            ''Failed to fetch Steam user info: Steam profile not found'')))))"
proof (intro conjI allI impI)
  fix e
  assume "json_parse pf (body_text response) = Inl e"
  then show "fst (userinfo_request pf c net)
              = Inl (Error (''Failed to fetch Steam user info: '' @ message e))"
    by (rule userinfo_request_unparsable [OF assms])
next
  fix data
  assume j: "json_parse pf (body_text response) = Inr data"
  assume "getField data ''response'' = None \<or> getField data ''response'' = Some JNull"
  then show "fst (userinfo_request pf c net) =
                 Inl (Error ''Failed to fetch Steam user info: Steam profile not found'')"
    by (elim disjE) (simp_all add: userinfo_request_parsed [OF assms j] players_chain)
next
  fix data r
  assume j: "json_parse pf (body_text response) = Inr data"
    and r: "getField data ''response'' = Some r"
  assume "getField r ''players'' = None \<or> getField r ''players'' = Some JNull
                \<or> (\<exists>n. getField r ''players'' = Some (JNum n))
                \<or> (\<exists>b. getField r ''players'' = Some (JBool b))
                \<or> getField r ''players'' = Some (JArr [])"
  then show "fst (userinfo_request pf c net) =
                 Inl (Error ''Failed to fetch Steam user info: Steam profile not found'')"
    by (elim disjE exE) (simp_all add: userinfo_request_parsed [OF assms j] players_chain r)
next
  fix data r p rest
  assume j: "json_parse pf (body_text response) = Inr data"
    and r: "getField data ''response'' = Some r"
    and pl: "getField r ''players'' = Some (JArr (p # rest))"
  show "fst (userinfo_request pf c net) =
                    (if truthy (Some p) then Inr p
                     else Inl (Error
                            ''Failed to fetch Steam user info: Steam profile not found''))"
    by (simp add: userinfo_request_parsed [OF assms j] players_chain r pl)
qed

theorem C7_witness:
  "fst (userinfo_request
     (stub_platform [] (respond 200 []) (Inr (player_summaries [])))
     example_ctx [])
   = Inl (Error ''Failed to fetch Steam user info: Steam profile not found'')"
proof -
  let ?pf = "stub_platform [] (respond 200 []) (Inr (player_summaries []))"
  have f: "fetch ?pf (playerSummariesRequest example_ctx)
             = Inr \<lparr>status = 200, statusText = [], body_text = []\<rparr>"
    by (simp only: fetch_stub respond_def)
  have j: "json_parse ?pf (body_text \<lparr>status = 200, statusText = [], body_text = []\<rparr>)
             = Inr (player_summaries [])"
    by (simp only: json_parse_stub)
  have pl: "getField (JObj [(''players'', JArr [])]) ''players'' = None
            \<or> getField (JObj [(''players'', JArr [])]) ''players'' = Some JNull
            \<or> (\<exists>n. getField (JObj [(''players'', JArr [])]) ''players'' = Some (JNum n))
            \<or> (\<exists>b. getField (JObj [(''players'', JArr [])]) ''players'' = Some (JBool b))
            \<or> getField (JObj [(''players'', JArr [])]) ''players'' = Some (JArr [])"
    by simp
  from C7_first_record_is_returned
         [OF f ok_200, of "[]", THEN conjunct2, THEN spec, THEN mp, OF j,
          THEN conjunct2, THEN spec, THEN mp, OF getField_player_summaries(1),
          THEN conjunct1, THEN mp, OF pl]
  show ?thesis .
qed

theorem C7_counterexample:
  "fst (userinfo_request
     (stub_platform [] (respond 200 [])
        (Inr (player_summaries
                [player_record ''76561197960287930'' ''first'',
                 player_record ''76561198000000001'' ''second''])))
     example_ctx [])
   = Inr (player_record ''76561197960287930'' ''first'')
   \<and> fst (userinfo_request
     (stub_platform [] (respond 200 [])
        (Inr (JObj [(''response'', JObj [(''players'', JStr ''abc'')])])))
     example_ctx [])
   = Inr (JStr ''a'')"
proof (rule conjI)
  let ?recs = "[player_record ''76561197960287930'' ''first'',
                player_record ''76561198000000001'' ''second'']"
  let ?pf = "stub_platform [] (respond 200 []) (Inr (player_summaries ?recs))"
  have f: "fetch ?pf (playerSummariesRequest example_ctx)
             = Inr \<lparr>status = 200, statusText = [], body_text = []\<rparr>"
    by (simp only: fetch_stub respond_def)
  have j: "json_parse ?pf (body_text \<lparr>status = 200, statusText = [], body_text = []\<rparr>)
             = Inr (player_summaries ?recs)"
    by (simp only: json_parse_stub)
  show "fst (userinfo_request ?pf example_ctx [])
          = Inr (player_record ''76561197960287930'' ''first'')"
    by (simp only: userinfo_request_parsed [OF f ok_200 j])
       (simp add: optional_chain_def player_summaries_def player_record_def)
next
  let ?data = "JObj [(''response'', JObj [(''players'', JStr ''abc'')])]"
  let ?pf = "stub_platform [] (respond 200 []) (Inr ?data)"
  have f: "fetch ?pf (playerSummariesRequest example_ctx)
             = Inr \<lparr>status = 200, statusText = [], body_text = []\<rparr>"
    by (simp only: fetch_stub respond_def)
  have j: "json_parse ?pf (body_text \<lparr>status = 200, statusText = [], body_text = []\<rparr>)
             = Inr ?data"
    by (simp only: json_parse_stub)
  show "fst (userinfo_request ?pf example_ctx []) = Inr (JStr ''a'')"
    by (simp only: userinfo_request_parsed [OF f ok_200 j])
       (simp add: optional_chain_def)
qed

subsection \<open>C8\<close>

text \<open>
  C8. A missing or empty \<open>clientSecret\<close> makes the factory throw, and a secret of
  length at least one with a callback URL the parser accepts makes it return a provider;
  either way the factory hands no request to the transport.
\<close>

theorem C8_secret_is_required_before_any_request:
  "(clientSecret options = None \<or> clientSecret options = Some [] \<longrightarrow>
      (\<exists>m. SteamProvider pf req options net = (Inl (Error m), net)))
   \<and> (\<forall>secret u. clientSecret options = Some secret \<and> 1 \<le> length secret
                   \<and> newURL pf (callbackUrl options) None = Inr u \<longrightarrow>
      (\<exists>config. SteamProvider pf req options net = (Inr config, net)))"
proof (intro conjI allI impI)
  assume "clientSecret options = None \<or> clientSecret options = Some []"
  then show "\<exists>m. SteamProvider pf req options net = (Inl (Error m), net)"
    unfolding SteamProvider_def by (elim disjE) simp_all
next
  fix secret u
  assume h: "clientSecret options = Some secret \<and> 1 \<le> length secret
               \<and> newURL pf (callbackUrl options) None = Inr u"
  then have "secret \<noteq> []" by auto
  with h show "\<exists>config. SteamProvider pf req options net = (Inr config, net)"
    unfolding SteamProvider_def Let_def by simp
qed

theorem C8_witness:
  "(\<exists>m. SteamProvider (stub_platform [] (respond 200 []) (Inr JNull)) callback_request
          \<lparr>callbackUrl = ''https://example.com/api/auth/callback'', clientSecret = Some []\<rparr>
          [] = (Inl (Error m), []))
   \<and> (\<exists>config. SteamProvider (stub_platform [] (respond 200 []) (Inr JNull)) callback_request
          \<lparr>callbackUrl = ''https://example.com/api/auth/callback'',
            clientSecret = Some ''0123456789ABCDEF0123456789ABCDEF''\<rparr>
          [] = (Inr config, []))"
proof (rule conjI)
  let ?pf = "stub_platform [] (respond 200 []) (Inr JNull)"
  from C8_secret_is_required_before_any_request
         [of "\<lparr>callbackUrl = ''https://example.com/api/auth/callback'',
                clientSecret = Some []\<rparr>" ?pf callback_request "[]"]
  show "\<exists>m. SteamProvider ?pf callback_request
          \<lparr>callbackUrl = ''https://example.com/api/auth/callback'', clientSecret = Some []\<rparr>
          [] = (Inl (Error m), [])"
    by simp
  from C8_secret_is_required_before_any_request
         [of "\<lparr>callbackUrl = ''https://example.com/api/auth/callback'',
                clientSecret = Some ''0123456789ABCDEF0123456789ABCDEF''\<rparr>"
             ?pf callback_request "[]", THEN conjunct2, THEN spec, THEN spec, THEN mp,
          of "''0123456789ABCDEF0123456789ABCDEF''"
             "\<lparr>href = ''https://example.com/api/auth/callback'',
               origin = ''https://example.com'', search = ''?''\<rparr>"]
  show "\<exists>config. SteamProvider ?pf callback_request
          \<lparr>callbackUrl = ''https://example.com/api/auth/callback'',
            clientSecret = Some ''0123456789ABCDEF0123456789ABCDEF''\<rparr>
          [] = (Inr config, [])"
    by (simp add: newURL_stub)
qed

subsection \<open>C9\<close>

text \<open>
  C9 (as amended). For every configuration whose \<open>callbackUrl\<close> the URL parser accepts,
  the derived \<open>returnTo\<close> is the parsed URL's serialisation (\<open>href\<close>) followed by
  \<open>/steam\<close>: it begins with that serialisation, hence with the given string whenever
  the given string is a prefix of the serialisation, and it ends with the provider suffix.
  The derived \<open>realm\<close> is the parsed URL's origin, and the token step verifies against
  these two values.
\<close>

theorem C9_returnTo_extends_the_serialised_callback_url:
  assumes "clientSecret options = Some secret" and "secret \<noteq> []"
    and "newURL pf (callbackUrl options) None = Inr u"
  shows "\<exists>config returnTo.
           SteamProvider pf req options net = (Inr config, net)
           \<and> URLSearchParams_get (authorization_params config) ''openid.return_to''
               = Some returnTo
           \<and> returnTo = href u @ ''/steam''
           \<and> prefix (href u) returnTo
           \<and> suffix ''/steam'' returnTo
           \<and> (prefix (callbackUrl options) (href u) \<longrightarrow>
                 prefix (callbackUrl options) returnTo)
           \<and> URLSearchParams_get (authorization_params config) ''openid.realm''
               = Some (origin u)
           \<and> token_conform config = conform pf req (origin u) returnTo"
proof -
  have p: "prefix (callbackUrl options) (href u) \<longrightarrow>
             prefix (callbackUrl options) (href u @ ''/steam'')"
    by (simp add: prefix_prefix)
  have s: "suffix ''/steam'' (href u @ ''/steam'')"
    by (simp add: suffix_def)
  show ?thesis
    unfolding SteamProvider_def Let_def
    using p s by (simp add: assms PROVIDER_ID_def)
qed

theorem C9_witness:
  "\<exists>config. SteamProvider (stub_platform [] (respond 200 []) (Inr JNull)) callback_request
          \<lparr>callbackUrl = ''https://example.com/api/auth/callback'',
            clientSecret = Some ''0123456789ABCDEF0123456789ABCDEF''\<rparr> []
        = (Inr config, [])
      \<and> URLSearchParams_get (authorization_params config) ''openid.return_to''
          = Some ''https://example.com/api/auth/callback/steam''
      \<and> prefix ''https://example.com/api/auth/callback''
           ''https://example.com/api/auth/callback/steam''
      \<and> URLSearchParams_get (authorization_params config) ''openid.realm''
          = Some ''https://example.com''"
proof -
  have s: "clientSecret \<lparr>callbackUrl = ''https://example.com/api/auth/callback'',
            clientSecret = Some ''0123456789ABCDEF0123456789ABCDEF''\<rparr>
             = Some ''0123456789ABCDEF0123456789ABCDEF''"
    by simp
  have n: "''0123456789ABCDEF0123456789ABCDEF'' \<noteq> []"
    by simp
  have u: "newURL (stub_platform [] (respond 200 []) (Inr JNull))
             (callbackUrl \<lparr>callbackUrl = ''https://example.com/api/auth/callback'',
                clientSecret = Some ''0123456789ABCDEF0123456789ABCDEF''\<rparr>) None
           = Inr \<lparr>href = ''https://example.com/api/auth/callback'',
                  origin = ''https://example.com'', search = ''?''\<rparr>"
    by (simp add: newURL_stub)
  from C9_returnTo_extends_the_serialised_callback_url [OF s n u, of callback_request "[]"]
  show ?thesis by auto
qed

theorem C9_counterexample:
  "returnTo_of (fst (SteamProvider lowercasing_platform callback_request
       \<lparr>callbackUrl = ''HTTPS://EXAMPLE.COM/api/auth/callback'',
         clientSecret = Some ''0123456789ABCDEF0123456789ABCDEF''\<rparr> []))
     = Some ''https://example.com/api/auth/callback/steam''
   \<and> \<not> prefix ''HTTPS://EXAMPLE.COM/api/auth/callback''
           ''https://example.com/api/auth/callback/steam''"
  by (simp add: returnTo_of_def SteamProvider_def Let_def lowercasing_platform_def
      PROVIDER_ID_def)

subsection \<open>C10\<close>

text \<open>
  C10 (as amended). The structural checks consult neither the \<open>realm\<close> argument nor the
  callback's \<open>openid.realm\<close> parameter: for two runs whose callback parameters agree
  once the \<open>openid.realm\<close> tuples are left out, the five checks give the same decision,
  the same as with no \<open>openid.realm\<close> at all; when they hold, both runs hand their
  request to the transport, and when they fail, both return null without a request. The
  \<open>realm\<close> argument changes nothing at all. The \<open>openid.realm\<close> parameter is forwarded
  in the body of the request, so the two results are the same when the transport gives
  the two requests the same answer.
\<close>

theorem C10_realm_is_not_consulted_by_the_checks:
  assumes "callback_params pf1 req1 = Inr params1"
    and "callback_params pf2 req2 = Inr params2"
    and "filter (\<lambda>kv. fst kv \<noteq> ''openid.realm'') params1
           = filter (\<lambda>kv. fst kv \<noteq> ''openid.realm'') params2"
  shows "passes_structural_checks returnTo params1 = passes_structural_checks returnTo params2
       \<and> passes_structural_checks returnTo params1
           = passes_structural_checks returnTo
               (filter (\<lambda>kv. fst kv \<noteq> ''openid.realm'') params1)
       \<and> (passes_structural_checks returnTo params1 \<longrightarrow>
             snd (verifyAssertion pf1 req1 realm1 returnTo net1)
               = net1 @ [verifyRequest params1]
             \<and> snd (verifyAssertion pf2 req2 realm2 returnTo net2)
               = net2 @ [verifyRequest params2])
       \<and> (\<not> passes_structural_checks returnTo params1 \<longrightarrow>
             verifyAssertion pf1 req1 realm1 returnTo net1 = (Inr None, net1)
             \<and> verifyAssertion pf2 req2 realm2 returnTo net2 = (Inr None, net2))
       \<and> (fetch pf1 (verifyRequest params1) = fetch pf2 (verifyRequest params2) \<longrightarrow>
             fst (verifyAssertion pf1 req1 realm1 returnTo net1)
               = fst (verifyAssertion pf2 req2 realm2 returnTo net2))
       \<and> verifyAssertion pf1 req1 realm1 returnTo net1
           = verifyAssertion pf1 req1 realm2 returnTo net1"
proof -
  have p: "passes_structural_checks returnTo params1
             = passes_structural_checks returnTo params2"
    by (rule passes_structural_checks_without_realm [OF assms(3)])
  have q: "passes_structural_checks returnTo params1
             = passes_structural_checks returnTo
                 (filter (\<lambda>kv. fst kv \<noteq> ''openid.realm'') params1)"
    by (rule passes_structural_checks_without_realm) simp
  have g: "URLSearchParams_get params1 ''openid.claimed_id''
       = URLSearchParams_get params2 ''openid.claimed_id''"
    by (rule URLSearchParams_get_without_realm [OF assms(3)], simp)
  show ?thesis
  proof (cases "passes_structural_checks returnTo params1")
    case True
    with p have True2: "passes_structural_checks returnTo params2" by simp
    have a: "fetch pf1 (verifyRequest params1) = fetch pf2 (verifyRequest params2) \<longrightarrow>
             fst (verifyAssertion pf1 req1 realm1 returnTo net1)
               = fst (verifyAssertion pf2 req2 realm2 returnTo net2)"
      by (simp only: verifyAssertion_accepted [OF assms(1) True]
          verifyAssertion_accepted [OF assms(2) True2] g fst_conv) simp
    have b: "verifyAssertion pf1 req1 realm1 returnTo net1
           = verifyAssertion pf1 req1 realm2 returnTo net1"
      by (simp only: verifyAssertion_accepted [OF assms(1) True])
    from True a b show ?thesis
      by (simp only: p [symmetric] q [symmetric] verifyAssertion_accepted [OF assms(1) True]
          verifyAssertion_accepted [OF assms(2) True2] snd_conv simp_thms)
  next
    case False
    with p have False2: "\<not> passes_structural_checks returnTo params2" by simp
    from False show ?thesis
      by (simp only: p [symmetric] q [symmetric] verifyAssertion_rejected [OF assms(1) False]
          verifyAssertion_rejected [OF assms(2) False2] fst_conv simp_thms)
  qed
qed

theorem C10_witness:
  "snd (verifyAssertion
     (stub_platform
        (assertion_params ''https://steamcommunity.com/openid/login'' ''76561197960287930''
           @ [(''openid.realm'', ''https://elsewhere.example'')])
        (respond 200 ''is_valid:true'') (Inr JNull))
     callback_request ''https://example.com'' example_returnTo [])
   = [] @ [verifyRequest
        (assertion_params ''https://steamcommunity.com/openid/login'' ''76561197960287930''
           @ [(''openid.realm'', ''https://elsewhere.example'')])]
   \<and> snd (verifyAssertion
     (stub_platform
        (assertion_params ''https://steamcommunity.com/openid/login'' ''76561197960287930'')
        (respond 200 ''is_valid:true'') (Inr JNull))
     callback_request ''https://other.example'' example_returnTo [])
   = [] @ [verifyRequest
        (assertion_params ''https://steamcommunity.com/openid/login'' ''76561197960287930'')]"
proof -
  let ?params2 =
    "assertion_params ''https://steamcommunity.com/openid/login'' ''76561197960287930''"
  let ?params1 = "?params2 @ [(''openid.realm'', ''https://elsewhere.example'')]"
  have same: "filter (\<lambda>kv. fst kv \<noteq> ''openid.realm'') ?params1
                = filter (\<lambda>kv. fst kv \<noteq> ''openid.realm'') ?params2"
    by simp
  have pass: "passes_structural_checks example_returnTo ?params1"
    using passes_structural_checks_without_realm [OF same, of example_returnTo]
      genuine_assertion_passes by (simp only:)
  from C10_realm_is_not_consulted_by_the_checks
         [OF callback_params_stub callback_params_stub same,
          of example_returnTo "respond 200 ''is_valid:true''" "Inr JNull"
             "''https://example.com''" "[]"
             "respond 200 ''is_valid:true''" "Inr JNull" "''https://other.example''" "[]",
          THEN conjunct2, THEN conjunct2, THEN conjunct1, THEN mp, OF pass]
  show ?thesis .
qed

theorem C10_counterexample:
  "fst (verifyAssertion
     (stub_platform
        (assertion_params ''https://steamcommunity.com/openid/login'' ''76561197960287930''
           @ [(''openid.realm'', ''https://example.com'')])
        realm_sensitive_transport (Inr JNull))
     callback_request ''https://example.com'' example_returnTo [])
   = Inr (Some ''76561197960287930'')
   \<and> fst (verifyAssertion
     (stub_platform
        (assertion_params ''https://steamcommunity.com/openid/login'' ''76561197960287930''
           @ [(''openid.realm'', ''https://elsewhere.example'')])
        realm_sensitive_transport (Inr JNull))
     callback_request ''https://example.com'' example_returnTo [])
   = Inr None"
proof (rule conjI)
  let ?base =
    "assertion_params ''https://steamcommunity.com/openid/login'' ''76561197960287930''"
  have v: "is_valid_test ''is_valid:true''"
    by (simp add: is_valid_here_def toUpperCase_def is_space_def char_of_eq_iff)
  {
    fix r :: string
    let ?params = "?base @ [(''openid.realm'', r)]"
    have same: "filter (\<lambda>kv. fst kv \<noteq> ''openid.realm'') ?params
                  = filter (\<lambda>kv. fst kv \<noteq> ''openid.realm'') ?base"
      by simp
    have pass: "passes_structural_checks example_returnTo ?params"
      using passes_structural_checks_without_realm [OF same, of example_returnTo]
        genuine_assertion_passes by (simp only:)
    have c: "or_empty (URLSearchParams_get ?params ''openid.claimed_id'')
               = ''https://steamcommunity.com/openid/id/76561197960287930''"
      by (simp add: assertion_params_def or_empty_def)
    have t: "realm_sensitive_transport (verifyRequest ?params)
               = (if r = ''https://example.com''
                  then respond 200 ''is_valid:true'' (verifyRequest ?params)
                  else respond 200 ''is_valid:false'' (verifyRequest ?params))"
      by (simp add: realm_sensitive_transport_def verifyRequest_def verifyParams_def
          assertion_params_def)
    have "fst (verifyAssertion (stub_platform ?params realm_sensitive_transport (Inr JNull))
                 callback_request ''https://example.com'' example_returnTo [])
            = (if r = ''https://example.com'' then Inr (Some ''76561197960287930'')
               else Inr None)"
    proof (cases "r = ''https://example.com''")
      case True
      then have e: "(r = ''https://example.com'') = True" by simp
      show ?thesis
        by (simp only: e verifyAssertion_accepted [OF callback_params_stub pass] fetch_stub t c
            fst_conv if_True respond_def sum.case ok_200 Response.simps v simp_thms
            IDENTIFIER_PATTERN_example)
    next
      case False
      then have e: "(r = ''https://example.com'') = False" by simp
      show ?thesis
        by (simp only: e verifyAssertion_accepted [OF callback_params_stub pass] fetch_stub t c
            fst_conv if_False respond_def sum.case ok_200 Response.simps is_valid_test_false
            simp_thms)
    qed
  }
  note run = this
  show "fst (verifyAssertion
     (stub_platform (?base @ [(''openid.realm'', ''https://example.com'')])
        realm_sensitive_transport (Inr JNull))
     callback_request ''https://example.com'' example_returnTo [])
   = Inr (Some ''76561197960287930'')"
    by (simp add: run)
  show "fst (verifyAssertion
     (stub_platform (?base @ [(''openid.realm'', ''https://elsewhere.example'')])
        realm_sensitive_transport (Inr JNull))
     callback_request ''https://example.com'' example_returnTo [])
   = Inr None"
    by (simp add: run)
qed

end
